theory Spec2Isabelle
  imports Main "HOL-Library.Word"
begin

section \<open>Python values, rows and exceptions\<close>

text \<open>
  The job manager of \<^verbatim>\<open>procrastinate/manager.py\<close> talks to its connector in
  dictionaries: keyword arguments go in, rows (\<^verbatim>\<open>Dict[str, Any]\<close>) come out. A
  dictionary is an association list read with \<^const>\<open>map_of\<close>; the values are the
  Python values the manager handles.
\<close>

datatype pyval =
    PNone
  | PBool bool
  | PInt int
  | PStr string
  | PDatetime int
  | PList "pyval list"
  | PTuple "pyval list"
  | PDict "(string \<times> pyval) list"

type_synonym row = "(string \<times> pyval) list"

type_synonym kwargs = "(string \<times> pyval) list"

text \<open>
  The exceptions that cross the manager. \<^verbatim>\<open>UniqueViolation\<close> carries the name of the
  violated constraint (\<^verbatim>\<open>exc.constraint_name\<close>); \<^verbatim>\<open>AlreadyEnqueued\<close> carries its
  message and the exception it was raised \<^verbatim>\<open>from\<close>; \<^verbatim>\<open>ConnectorException\<close> stands for
  every other failure of the store.
\<close>

datatype error =
    UniqueViolation (message: string) (constraint_name: "string option")
  | AlreadyEnqueued string error
  | ConnectorException string
  | KeyError string
  | AttributeError string

text \<open>\<^verbatim>\<open>row[key]\<close>: a missing key raises \<^verbatim>\<open>KeyError\<close>.\<close>

definition getitem :: "row \<Rightarrow> string \<Rightarrow> error + pyval" where
  "getitem r key = (case map_of r key of None \<Rightarrow> Inl (KeyError key) | Some v \<Rightarrow> Inr v)"

text \<open>\<^verbatim>\<open>d.get(key, default)\<close>: only a dictionary has the method.\<close>

fun dict_get :: "pyval \<Rightarrow> string \<Rightarrow> pyval \<Rightarrow> error + pyval" where
  "dict_get (PDict d) key dflt = Inr (case map_of d key of None \<Rightarrow> dflt | Some v \<Rightarrow> v)"
| "dict_get _ key dflt = Inl (AttributeError ''get'')"

text \<open>An \<^verbatim>\<open>Optional[str]\<close> or \<^verbatim>\<open>Optional[datetime]\<close> argument as the Python value passed on.\<close>

definition opt_str :: "string option \<Rightarrow> pyval" where
  "opt_str x = (case x of None \<Rightarrow> PNone | Some s \<Rightarrow> PStr s)"

definition opt_datetime :: "int option \<Rightarrow> pyval" where
  "opt_datetime x = (case x of None \<Rightarrow> PNone | Some t \<Rightarrow> PDatetime t)"

text \<open>What an f-string prints for an \<^verbatim>\<open>Optional[str]\<close>.\<close>

definition format_opt_str :: "string option \<Rightarrow> string" where
  "format_opt_str x = (case x of None \<Rightarrow> ''None'' | Some s \<Rightarrow> s)"

section \<open>Notification channels\<close>

text \<open>
  \<^verbatim>\<open>
  def get_channel_for_queues(queues=None):
      if queues is None:
          return ["procrastinate_any_queue"]
      else:
          return ["procrastinate_queue#" + queue for queue in queues]
  \<close>
\<close>

definition get_channel_for_queues :: "string list option \<Rightarrow> string list" where
  "get_channel_for_queues queues =
     (case queues of
        None \<Rightarrow> [''procrastinate_any_queue'']
      | Some qs \<Rightarrow> map (\<lambda>queue. ''procrastinate_queue#'' @ queue) qs)"

section \<open>The store\<close>

text \<open>
  The connector (\<^verbatim>\<open>connector.BaseConnector\<close>) is the manager's only collaborator. Each
  of its methods takes the keyword arguments of one query, runs it against the store
  and either returns rows or raises; the store it changes is threaded through as
  \<open>'db\<close>. The blocking and the suspending form of \<^verbatim>\<open>execute_query_one\<close> are two
  methods.
\<close>

record 'db connector =
  execute_query_one :: "kwargs \<Rightarrow> 'db \<Rightarrow> (error + row) \<times> 'db"
  execute_query_one_async :: "kwargs \<Rightarrow> 'db \<Rightarrow> (error + row) \<times> 'db"
  execute_query_all_async :: "kwargs \<Rightarrow> 'db \<Rightarrow> (error + row list) \<times> 'db"
  execute_query_async :: "kwargs \<Rightarrow> 'db \<Rightarrow> (error + unit) \<times> 'db"

text \<open>
  Modelled from the spec: the class \<^verbatim>\<open>jobs.Job\<close> is not among the sources. The record
  holds the job description of the spec's section 6 under the attribute names the
  manager reads (\<^verbatim>\<open>task_kwargs\<close> is the payload sent as \<^verbatim>\<open>args\<close>).
\<close>

record job =
  task_name :: string
  queue :: string
  lock :: "string option"
  queueing_lock :: "string option"
  task_kwargs :: "(string \<times> pyval) list"
  scheduled_at :: "int option"

text \<open>
  Modelled from the spec: the class \<^verbatim>\<open>tasks.Task\<close> is not among the sources. The
  record holds the four attributes \<^verbatim>\<open>defer_periodic_job\<close> reads, typed as the fields
  of the same name in the job description.
\<close>

record task =
  name :: string
  queue :: string
  lock :: "string option"
  queueing_lock :: "string option"

text \<open>
  Modelled from the spec: the enumeration \<^verbatim>\<open>jobs.Status\<close> is not among the sources.
  Its members and their values are the four statuses of the spec's data model.
\<close>

datatype Status = TODO | DOING | SUCCEEDED | FAILED

fun Status_value :: "Status \<Rightarrow> string" where
  "Status_value TODO = ''todo''"
| "Status_value DOING = ''doing''"
| "Status_value SUCCEEDED = ''succeeded''"
| "Status_value FAILED = ''failed''"

section \<open>Lock tokens\<close>

text \<open>
  \<^verbatim>\<open>str(uuid.uuid4())\<close>. A UUID is a 128-bit integer; which one \<^verbatim>\<open>uuid4\<close> draws is
  the caller's randomness, so the drawn UUID is an argument of the model. Its string is
  Python's: the 32 lower-case hexadecimal digits of the integer, written in groups of
  8, 4, 4, 4 and 12 joined by hyphens.
\<close>

type_synonym uuid = "128 word"

definition hex_digit :: "nat \<Rightarrow> char" where
  "hex_digit d = ''0123456789abcdef'' ! d"

text \<open>\<^verbatim>\<open>'%0kx' % n\<close> for \<open>n < 16 ^ k\<close>.\<close>

fun hex_fixed :: "nat \<Rightarrow> nat \<Rightarrow> string" where
  "hex_fixed 0 n = []"
| "hex_fixed (Suc k) n = hex_fixed k (n div 16) @ [hex_digit (n mod 16)]"

definition str_uuid :: "uuid \<Rightarrow> string" where
  "str_uuid u =
     (let hex = hex_fixed 32 (unat u)
      in take 8 hex @ ''-'' @ take 4 (drop 8 hex) @ ''-'' @ take 4 (drop 12 hex) @ ''-''
         @ take 4 (drop 16 hex) @ ''-'' @ drop 20 hex)"

text \<open>\<^verbatim>\<open>x or y\<close> for an \<^verbatim>\<open>Optional[str]\<close> \<open>x\<close>: \<^verbatim>\<open>None\<close> and \<^verbatim>\<open>""\<close> are the falsy values.\<close>

definition or_str :: "string option \<Rightarrow> string \<Rightarrow> string" where
  "or_str x y = (case x of None \<Rightarrow> y | Some s \<Rightarrow> if s = [] then y else s)"

section \<open>Deferring jobs\<close>

text \<open>
  \<^verbatim>\<open>
  def _defer_job_query_kwargs(self, job):
      return {
          "query": sql.queries["defer_job"],
          "task_name": job.task_name,
          "queue": job.queue,
          "lock": job.lock or str(uuid.uuid4()),
          "queueing_lock": job.queueing_lock,
          "args": job.task_kwargs,
          "scheduled_at": job.scheduled_at,
      }
  \<close>
  The table \<^verbatim>\<open>sql.queries\<close> is not among the sources: it is the argument \<open>queries\<close>,
  from a query's name to its text. \<open>u\<close> is the UUID that \<^verbatim>\<open>uuid.uuid4()\<close> returns when
  it is called.
\<close>

definition defer_job_query_kwargs :: "(string \<Rightarrow> string) \<Rightarrow> uuid \<Rightarrow> job \<Rightarrow> kwargs" where
  "defer_job_query_kwargs queries u j =
     [(''query'', PStr (queries ''defer_job'')),
      (''task_name'', PStr (task_name j)),
      (''queue'', PStr (job.queue j)),
      (''lock'', PStr (or_str (job.lock j) (str_uuid u))),
      (''queueing_lock'', opt_str (job.queueing_lock j)),
      (''args'', PDict (task_kwargs j)),
      (''scheduled_at'', opt_datetime (scheduled_at j))]"

text \<open>
  \<^verbatim>\<open>
  def _raise_already_enqueued(self, exc, queueing_lock):
      if exc.constraint_name == connector.QUEUEING_LOCK_CONSTRAINT:
          raise exceptions.AlreadyEnqueued(
              "Job cannot be enqueued: there is already a job in the queue "
              f"with the queueing lock {queueing_lock}"
          ) from exc
      raise exc
  \<close>
  The method always raises; the model returns the exception raised. The constant
  \<^verbatim>\<open>connector.QUEUEING_LOCK_CONSTRAINT\<close> is not among the sources: it is the argument
  \<open>QUEUEING_LOCK_CONSTRAINT\<close>; \<open>qlock\<close> is the method's \<^verbatim>\<open>queueing_lock\<close>.
\<close>

definition raise_already_enqueued :: "string \<Rightarrow> error \<Rightarrow> string option \<Rightarrow> error" where
  "raise_already_enqueued QUEUEING_LOCK_CONSTRAINT exc qlock =
     (if constraint_name exc = Some QUEUEING_LOCK_CONSTRAINT
      then AlreadyEnqueued
             (''Job cannot be enqueued: there is already a job in the queue ''
              @ ''with the queueing lock '' @ format_opt_str qlock)
             exc
      else exc)"

text \<open>
  \<^verbatim>\<open>
  def defer_job(self, job):
      try:
          result = self.connector.execute_query_one(
              **self._defer_job_query_kwargs(job=job))
      except exceptions.UniqueViolation as exc:
          self._raise_already_enqueued(exc=exc, queueing_lock=job.queueing_lock)
      return result["id"]
  \<close>
  and \<^verbatim>\<open>defer_job_async\<close>, the same text around \<^verbatim>\<open>execute_query_one_async\<close>.
\<close>

definition defer_job ::
  "string \<Rightarrow> (string \<Rightarrow> string) \<Rightarrow> 'db connector \<Rightarrow> uuid \<Rightarrow> job \<Rightarrow> 'db
   \<Rightarrow> (error + pyval) \<times> 'db" where
  "defer_job QUEUEING_LOCK_CONSTRAINT queries conn u j db =
     (case execute_query_one conn (defer_job_query_kwargs queries u j) db of
        (Inl exc, db') \<Rightarrow>
          (case exc of
             UniqueViolation m c \<Rightarrow>
               (Inl (raise_already_enqueued QUEUEING_LOCK_CONSTRAINT exc (job.queueing_lock j)),
                db')
           | _ \<Rightarrow> (Inl exc, db'))
      | (Inr result, db') \<Rightarrow> (getitem result ''id'', db'))"

definition defer_job_async ::
  "string \<Rightarrow> (string \<Rightarrow> string) \<Rightarrow> 'db connector \<Rightarrow> uuid \<Rightarrow> job \<Rightarrow> 'db
   \<Rightarrow> (error + pyval) \<times> 'db" where
  "defer_job_async QUEUEING_LOCK_CONSTRAINT queries conn u j db =
     (case execute_query_one_async conn (defer_job_query_kwargs queries u j) db of
        (Inl exc, db') \<Rightarrow>
          (case exc of
             UniqueViolation m c \<Rightarrow>
               (Inl (raise_already_enqueued QUEUEING_LOCK_CONSTRAINT exc (job.queueing_lock j)),
                db')
           | _ \<Rightarrow> (Inl exc, db'))
      | (Inr result, db') \<Rightarrow> (getitem result ''id'', db'))"

text \<open>
  \<^verbatim>\<open>
  async def defer_periodic_job(self, task, defer_timestamp):
      try:
          result = await self.connector.execute_query_one_async(
              query=sql.queries["defer_periodic_job"],
              task_name=task.name,
              queue=task.queue,
              lock=task.lock,
              queueing_lock=task.queueing_lock,
              defer_timestamp=defer_timestamp,
          )
      except exceptions.UniqueViolation as exc:
          self._raise_already_enqueued(exc=exc, queueing_lock=task.queueing_lock)
      return result["id"]
  \<close>
\<close>

definition defer_periodic_job ::
  "string \<Rightarrow> (string \<Rightarrow> string) \<Rightarrow> 'db connector \<Rightarrow> task \<Rightarrow> int \<Rightarrow> 'db
   \<Rightarrow> (error + pyval) \<times> 'db" where
  "defer_periodic_job QUEUEING_LOCK_CONSTRAINT queries conn t defer_timestamp db =
     (case execute_query_one_async conn
             [(''query'', PStr (queries ''defer_periodic_job'')),
              (''task_name'', PStr (name t)),
              (''queue'', PStr (task.queue t)),
              (''lock'', opt_str (task.lock t)),
              (''queueing_lock'', opt_str (task.queueing_lock t)),
              (''defer_timestamp'', PInt defer_timestamp)] db of
        (Inl exc, db') \<Rightarrow>
          (case exc of
             UniqueViolation m c \<Rightarrow>
               (Inl (raise_already_enqueued QUEUEING_LOCK_CONSTRAINT exc (task.queueing_lock t)),
                db')
           | _ \<Rightarrow> (Inl exc, db'))
      | (Inr result, db') \<Rightarrow> (getitem result ''id'', db'))"

section \<open>Fetching a job\<close>

text \<open>
  \<^verbatim>\<open>
  async def fetch_job(self, queues):
      row = await self.connector.execute_query_one_async(
          query=sql.queries["fetch_job"], queues=queues)
      # fetch_tasks will always return a row, but is there's no relevant
      # value, it will all be None
      if row["id"] is None:
          return None
      return jobs.Job.from_row(row)
  \<close>
  \<^verbatim>\<open>jobs.Job.from_row\<close> is not among the sources: it is the argument \<open>from_row\<close>, which
  builds a job record from a row or raises.
\<close>

definition opt_queues :: "string list option \<Rightarrow> pyval" where
  "opt_queues queues = (case queues of None \<Rightarrow> PNone | Some qs \<Rightarrow> PList (map PStr qs))"

definition fetch_job ::
  "(string \<Rightarrow> string) \<Rightarrow> (row \<Rightarrow> error + 'j) \<Rightarrow> 'db connector \<Rightarrow> string list option \<Rightarrow> 'db
   \<Rightarrow> (error + 'j option) \<times> 'db" where
  "fetch_job queries from_row conn queues db =
     (case execute_query_one_async conn
             [(''query'', PStr (queries ''fetch_job'')), (''queues'', opt_queues queues)] db of
        (Inl exc, db') \<Rightarrow> (Inl exc, db')
      | (Inr r, db') \<Rightarrow>
          (case getitem r ''id'' of
             Inl exc \<Rightarrow> (Inl exc, db')
           | Inr v \<Rightarrow>
               if v = PNone then (Inr None, db')
               else (case from_row r of
                       Inl exc \<Rightarrow> (Inl exc, db')
                     | Inr j \<Rightarrow> (Inr (Some j), db'))))"

section \<open>Deleting old jobs\<close>

text \<open>
  \<^verbatim>\<open>
  async def delete_old_jobs(self, nb_hours, queue=None, include_error=False):
      # We only consider finished jobs by default
      if not include_error:
          statuses = [jobs.Status.SUCCEEDED.value]
      else:
          statuses = [jobs.Status.SUCCEEDED.value, jobs.Status.FAILED.value]
      await self.connector.execute_query_async(
          query=sql.queries["delete_old_jobs"],
          nb_hours=nb_hours,
          queue=queue,
          statuses=tuple(statuses),
      )
  \<close>
  \<^verbatim>\<open>include_error\<close> is an \<^verbatim>\<open>Optional[bool]\<close>: \<^verbatim>\<open>None\<close> and \<^verbatim>\<open>False\<close> are falsy.
\<close>

definition truthy :: "bool option \<Rightarrow> bool" where
  "truthy x = (case x of None \<Rightarrow> False | Some b \<Rightarrow> b)"

definition delete_old_jobs_statuses :: "bool option \<Rightarrow> string list" where
  "delete_old_jobs_statuses include_error =
     (if \<not> truthy include_error then [Status_value SUCCEEDED]
      else [Status_value SUCCEEDED, Status_value FAILED])"

definition delete_old_jobs ::
  "(string \<Rightarrow> string) \<Rightarrow> 'db connector \<Rightarrow> int \<Rightarrow> string option \<Rightarrow> bool option \<Rightarrow> 'db
   \<Rightarrow> (error + unit) \<times> 'db" where
  "delete_old_jobs queries conn nb_hours queue_filter include_error db =
     execute_query_async conn
       [(''query'', PStr (queries ''delete_old_jobs'')),
        (''nb_hours'', PInt nb_hours),
        (''queue'', opt_str queue_filter),
        (''statuses'', PTuple (map PStr (delete_old_jobs_statuses include_error)))] db"

section \<open>Queue and task statistics\<close>

text \<open>
  \<^verbatim>\<open>
  async def list_queues_async(self, queue=None, task=None, status=None, lock=None):
      return [
          {
              "name": row["name"],
              "jobs_count": row["jobs_count"],
              "todo": row["stats"].get("todo", 0),
              "doing": row["stats"].get("doing", 0),
              "succeeded": row["stats"].get("succeeded", 0),
              "failed": row["stats"].get("failed", 0),
          }
          for row in await self.connector.execute_query_all_async(
              query=sql.queries["list_queues"],
              queue_name=queue, task_name=task, status=status, lock=lock)
      ]
  \<close>
  \<^verbatim>\<open>list_tasks_async\<close> builds the same dictionary from the rows of \<^verbatim>\<open>list_tasks\<close>, which
  it calls with \<^verbatim>\<open>queue_name=queue, name=task, status=status, lock=lock\<close>. The
  dictionary display evaluates its values in order, so the first subscript or method
  call that raises ends the comprehension.
\<close>

definition stats_entry :: "row \<Rightarrow> string \<Rightarrow> error + pyval" where
  "stats_entry r key =
     (case getitem r ''stats'' of
        Inl exc \<Rightarrow> Inl exc
      | Inr stats \<Rightarrow> dict_get stats key (PInt 0))"

definition stats_projection :: "row \<Rightarrow> error + row" where
  "stats_projection r =
     (case getitem r ''name'' of Inl exc \<Rightarrow> Inl exc | Inr n \<Rightarrow>
      case getitem r ''jobs_count'' of Inl exc \<Rightarrow> Inl exc | Inr c \<Rightarrow>
      case stats_entry r ''todo'' of Inl exc \<Rightarrow> Inl exc | Inr t \<Rightarrow>
      case stats_entry r ''doing'' of Inl exc \<Rightarrow> Inl exc | Inr d \<Rightarrow>
      case stats_entry r ''succeeded'' of Inl exc \<Rightarrow> Inl exc | Inr s \<Rightarrow>
      case stats_entry r ''failed'' of Inl exc \<Rightarrow> Inl exc | Inr f \<Rightarrow>
        Inr [(''name'', n), (''jobs_count'', c), (''todo'', t), (''doing'', d),
             (''succeeded'', s), (''failed'', f)])"

text \<open>The list comprehension: the projections of the rows in order, or the first exception.\<close>

fun comprehension :: "(row \<Rightarrow> error + row) \<Rightarrow> row list \<Rightarrow> error + row list" where
  "comprehension f [] = Inr []"
| "comprehension f (r # rs) =
     (case f r of
        Inl exc \<Rightarrow> Inl exc
      | Inr out \<Rightarrow> (case comprehension f rs of Inl exc \<Rightarrow> Inl exc | Inr outs \<Rightarrow> Inr (out # outs)))"

definition list_queues_async ::
  "(string \<Rightarrow> string) \<Rightarrow> 'db connector \<Rightarrow> string option \<Rightarrow> string option \<Rightarrow> string option
   \<Rightarrow> string option \<Rightarrow> 'db \<Rightarrow> (error + row list) \<times> 'db" where
  "list_queues_async queries conn queue_filter task_filter status lock_filter db =
     (case execute_query_all_async conn
             [(''query'', PStr (queries ''list_queues'')),
              (''queue_name'', opt_str queue_filter),
              (''task_name'', opt_str task_filter),
              (''status'', opt_str status),
              (''lock'', opt_str lock_filter)] db of
        (Inl exc, db') \<Rightarrow> (Inl exc, db')
      | (Inr rows, db') \<Rightarrow> (comprehension stats_projection rows, db'))"

definition list_tasks_async ::
  "(string \<Rightarrow> string) \<Rightarrow> 'db connector \<Rightarrow> string option \<Rightarrow> string option \<Rightarrow> string option
   \<Rightarrow> string option \<Rightarrow> 'db \<Rightarrow> (error + row list) \<times> 'db" where
  "list_tasks_async queries conn queue_filter task_filter status lock_filter db =
     (case execute_query_all_async conn
             [(''query'', PStr (queries ''list_tasks'')),
              (''queue_name'', opt_str queue_filter),
              (''name'', opt_str task_filter),
              (''status'', opt_str status),
              (''lock'', opt_str lock_filter)] db of
        (Inl exc, db') \<Rightarrow> (Inl exc, db')
      | (Inr rows, db') \<Rightarrow> (comprehension stats_projection rows, db'))"

section \<open>A connector for concrete runs\<close>

text \<open>
  The connector below answers every single-row query with \<open>one\<close> and every multi-row
  query with \<open>many\<close>, and appends the keyword arguments of each call to its store, which
  is the log of the calls made. It shows what a manager method hands to the store.
\<close>

definition logging_connector :: "error + row \<Rightarrow> error + row list \<Rightarrow> kwargs list connector" where
  "logging_connector one many =
     \<lparr>execute_query_one = (\<lambda>kw log. (one, log @ [kw])),
      execute_query_one_async = (\<lambda>kw log. (one, log @ [kw])),
      execute_query_all_async = (\<lambda>kw log. (many, log @ [kw])),
      execute_query_async = (\<lambda>kw log. (Inr (), log @ [kw]))\<rparr>"

section \<open>Properties\<close>

subsection \<open>Notification channels\<close>

text \<open>
  Claim C4. The channel mapping is a function of its argument alone: without a queue
  filter it returns the single wildcard channel; for a collection of queue names it
  returns one channel per name, in order, each the fixed prefix
  \<^verbatim>\<open>procrastinate_queue#\<close> followed by the name, so that one queue name always gives
  the same channel, and two different names never share one.
\<close>

theorem get_channel_for_queues_mapping:
  "get_channel_for_queues None = [''procrastinate_any_queue'']
   \<and> length (get_channel_for_queues (Some queues)) = length queues
   \<and> (\<forall>i < length queues.
         get_channel_for_queues (Some queues) ! i = ''procrastinate_queue#'' @ queues ! i)
   \<and> (\<forall>q q'. (get_channel_for_queues (Some [q]) = get_channel_for_queues (Some [q']))
                = (q = q'))"
  by (simp add: get_channel_for_queues_def)

theorem get_channel_for_queues_mapping_witness:
  "get_channel_for_queues None = [''procrastinate_any_queue'']
   \<and> get_channel_for_queues (Some [''default'', ''mail'']) ! 1 = ''procrastinate_queue#mail''
   \<and> length (get_channel_for_queues (Some [''default'', ''mail''])) = 2"
  using get_channel_for_queues_mapping [of "[''default'', ''mail'']"]
  by (simp add: get_channel_for_queues_def)

subsection \<open>The string of a UUID\<close>








lemma str_uuid_255: "str_uuid 255 = ''00000000-0000-0000-0000-0000000000ff''"
  by code_simp

subsection \<open>What a defer hands to the store\<close>

lemma lock_kwarg:
  "map_of (defer_job_query_kwargs queries u j) ''lock''
   = Some (PStr (or_str (job.lock j) (str_uuid u)))"
  by (simp add: defer_job_query_kwargs_def)

lemma defer_job_logged:
  "snd (defer_job QLC queries (logging_connector one many) u j log)
   = log @ [defer_job_query_kwargs queries u j]"
  by (simp add: defer_job_def logging_connector_def split: sum.splits error.splits)

lemma defer_job_async_logged:
  "snd (defer_job_async QLC queries (logging_connector one many) u j log)
   = log @ [defer_job_query_kwargs queries u j]"
  by (simp add: defer_job_async_def logging_connector_def split: sum.splits error.splits)

lemma AlreadyEnqueued_not_cause: "AlreadyEnqueued msg exc \<noteq> exc"
  by (induction exc arbitrary: msg) simp_all






text \<open>
  Claim C9. \<^verbatim>\<open>defer_periodic_job\<close> makes one call to the store, and the \<^verbatim>\<open>lock\<close> argument
  of that call is the task's lock as it is: null for a task without a lock, the string
  itself otherwise. No token is generated in its place, whereas \<^verbatim>\<open>defer_job\<close> hands the
  store the string of the drawn UUID for a job without a lock.
\<close>

theorem defer_periodic_job_lock_as_given:
  "(\<exists>kw. snd (defer_periodic_job QLC queries (logging_connector one many) t defer_timestamp log)
            = log @ [kw]
         \<and> map_of kw ''lock'' = Some (case task.lock t of None \<Rightarrow> PNone | Some l \<Rightarrow> PStr l))
   \<and> (job.lock j = None
        \<longrightarrow> snd (defer_job QLC queries (logging_connector one many) u j log)
              = log @ [defer_job_query_kwargs queries u j]
          \<and> map_of (defer_job_query_kwargs queries u j) ''lock'' = Some (PStr (str_uuid u)))"
  by (simp add: defer_periodic_job_def logging_connector_def opt_str_def
      defer_job_logged [unfolded logging_connector_def] lock_kwarg or_str_def
      split: sum.splits error.splits option.splits)

theorem defer_periodic_job_lock_as_given_witness:
  "snd (defer_periodic_job ''procrastinate_jobs_queueing_lock_idx'' id
          (logging_connector (Inr [(''id'', PInt 1)]) (Inr []))
          \<lparr>name = ''nightly_report'', queue = ''default'', lock = None, queueing_lock = None\<rparr>
          1604534400 [])
   = [[(''query'', PStr ''defer_periodic_job''), (''task_name'', PStr ''nightly_report''),
       (''queue'', PStr ''default''), (''lock'', PNone), (''queueing_lock'', PNone),
       (''defer_timestamp'', PInt 1604534400)]]
   \<and> map_of (defer_job_query_kwargs id 255
          \<lparr>task_name = ''nightly_report'', queue = ''default'', lock = None,
            queueing_lock = None, task_kwargs = [], scheduled_at = None\<rparr>) ''lock''
     = Some (PStr ''00000000-0000-0000-0000-0000000000ff'')"
  using defer_periodic_job_lock_as_given
    [where queries = id and QLC = "''procrastinate_jobs_queueing_lock_idx''" and log = "[]"
       and one = "Inr [(''id'', PInt 1)]" and many = "Inr []" and defer_timestamp = 1604534400
       and t = "\<lparr>name = ''nightly_report'', queue = ''default'', lock = None,
                  queueing_lock = None\<rparr>"
       and u = 255
       and j = "\<lparr>task_name = ''nightly_report'', queue = ''default'', lock = None,
                  queueing_lock = None, task_kwargs = [], scheduled_at = None\<rparr>"]
  by (simp add: defer_periodic_job_def logging_connector_def opt_str_def str_uuid_255
      defer_job_query_kwargs_def or_str_def)

subsection \<open>How a defer reads the store's answer\<close>

text \<open>
  Claim C2. When the store raises during \<^verbatim>\<open>defer_job\<close> or \<^verbatim>\<open>defer_job_async\<close>, the
  method raises \<^verbatim>\<open>AlreadyEnqueued\<close>, with the job's queueing lock in its message and the
  store's exception as its cause, if and only if the store's exception is a
  \<^verbatim>\<open>UniqueViolation\<close> whose constraint is the queueing-lock constraint. Every other
  exception of the store, a \<^verbatim>\<open>UniqueViolation\<close> on another constraint included, is
  raised as it came.
\<close>

theorem defer_job_error_classification:
  assumes "(execute_query_one conn (defer_job_query_kwargs queries u j) db = (Inl exc, db')
              \<and> res = defer_job QLC queries conn u j db)
           \<or> (execute_query_one_async conn (defer_job_query_kwargs queries u j) db = (Inl exc, db')
              \<and> res = defer_job_async QLC queries conn u j db)"
  shows "res =
           (Inl (if is_UniqueViolation exc \<and> constraint_name exc = Some QLC
                 then AlreadyEnqueued
                        (''Job cannot be enqueued: there is already a job in the queue with the queueing lock ''
                         @ format_opt_str (job.queueing_lock j)) exc
                 else exc), db')
         \<and> ((\<exists>msg. fst res = Inl (AlreadyEnqueued msg exc))
              = (is_UniqueViolation exc \<and> constraint_name exc = Some QLC))"
proof -
  from assms have r: "res =
           (Inl (if is_UniqueViolation exc \<and> constraint_name exc = Some QLC
                 then AlreadyEnqueued
                        (''Job cannot be enqueued: there is already a job in the queue with the queueing lock ''
                         @ format_opt_str (job.queueing_lock j)) exc
                 else exc), db')"
    by (auto simp: defer_job_def defer_job_async_def raise_already_enqueued_def
        split: error.splits)
  then have "(\<exists>msg. fst res = Inl (AlreadyEnqueued msg exc))
              = (is_UniqueViolation exc \<and> constraint_name exc = Some QLC)"
    using AlreadyEnqueued_not_cause [of _ exc] by auto
  with r show ?thesis by blast
qed

theorem defer_job_error_classification_witness:
  "defer_job ''procrastinate_jobs_queueing_lock_idx'' id
     (logging_connector
        (Inl (UniqueViolation ''duplicate key'' (Some ''procrastinate_jobs_queueing_lock_idx'')))
        (Inr [])) 255
     \<lparr>task_name = ''send_mail'', queue = ''default'', lock = None,
       queueing_lock = Some ''mailbox'', task_kwargs = [], scheduled_at = None\<rparr> []
   = (Inl (AlreadyEnqueued
            ''Job cannot be enqueued: there is already a job in the queue with the queueing lock mailbox''
            (UniqueViolation ''duplicate key'' (Some ''procrastinate_jobs_queueing_lock_idx''))),
      [defer_job_query_kwargs id 255
         \<lparr>task_name = ''send_mail'', queue = ''default'', lock = None,
           queueing_lock = Some ''mailbox'', task_kwargs = [], scheduled_at = None\<rparr>])
   \<and> defer_job_async ''procrastinate_jobs_queueing_lock_idx'' id
     (logging_connector
        (Inl (UniqueViolation ''duplicate key'' (Some ''procrastinate_jobs_pkey'')))
        (Inr [])) 255
     \<lparr>task_name = ''send_mail'', queue = ''default'', lock = None,
       queueing_lock = Some ''mailbox'', task_kwargs = [], scheduled_at = None\<rparr> []
   = (Inl (UniqueViolation ''duplicate key'' (Some ''procrastinate_jobs_pkey'')),
      [defer_job_query_kwargs id 255
         \<lparr>task_name = ''send_mail'', queue = ''default'', lock = None,
           queueing_lock = Some ''mailbox'', task_kwargs = [], scheduled_at = None\<rparr>])"
proof -
  let ?j = "\<lparr>task_name = ''send_mail'', queue = ''default'', lock = None,
       queueing_lock = Some ''mailbox'', task_kwargs = [], scheduled_at = None\<rparr>"
  let ?q = "''procrastinate_jobs_queueing_lock_idx''"
  let ?c1 = "logging_connector (Inl (UniqueViolation ''duplicate key'' (Some ?q))) (Inr [])"
  let ?c2 = "logging_connector
     (Inl (UniqueViolation ''duplicate key'' (Some ''procrastinate_jobs_pkey''))) (Inr [])"
  have a: "execute_query_one ?c1 (defer_job_query_kwargs id 255 ?j) []
            = (Inl (UniqueViolation ''duplicate key'' (Some ?q)), [defer_job_query_kwargs id 255 ?j])"
    by (simp add: logging_connector_def)
  have b: "execute_query_one_async ?c2 (defer_job_query_kwargs id 255 ?j) []
            = (Inl (UniqueViolation ''duplicate key'' (Some ''procrastinate_jobs_pkey'')),
               [defer_job_query_kwargs id 255 ?j])"
    by (simp add: logging_connector_def)
  have "defer_job ?q id ?c1 255 ?j [] =
       (Inl (AlreadyEnqueued
            ''Job cannot be enqueued: there is already a job in the queue with the queueing lock mailbox''
            (UniqueViolation ''duplicate key'' (Some ?q))), [defer_job_query_kwargs id 255 ?j])"
    using defer_job_error_classification
      [where conn = ?c1 and res = "defer_job ?q id ?c1 255 ?j []" and QLC = ?q,
        OF disjI1, OF conjI, OF a refl]
    by (simp add: format_opt_str_def)
  moreover have "defer_job_async ?q id ?c2 255 ?j [] =
       (Inl (UniqueViolation ''duplicate key'' (Some ''procrastinate_jobs_pkey'')),
        [defer_job_query_kwargs id 255 ?j])"
    using defer_job_error_classification
      [where conn = ?c2 and res = "defer_job_async ?q id ?c2 255 ?j []" and QLC = ?q,
        OF disjI2, OF conjI, OF b refl]
    by simp
  ultimately show ?thesis by simp
qed

text \<open>
  Claim C3. \<^verbatim>\<open>defer_job\<close> and \<^verbatim>\<open>defer_job_async\<close> do the same thing around the two forms
  of the connector's method: whatever runs the query, the blocking method over it and
  the suspending method over it return the same result and leave the same store; both
  hand the store the keyword arguments of \<^verbatim>\<open>_defer_job_query_kwargs\<close>, lock fallback
  included; and on a connector whose two forms answer this call alike, the two methods
  agree. Suspension itself is not part of the model.
\<close>

theorem defer_job_sync_async_identical:
  "defer_job QLC queries (conn\<lparr>execute_query_one := run\<rparr>) u j db
     = defer_job_async QLC queries (conn'\<lparr>execute_query_one_async := run\<rparr>) u j db
   \<and> snd (defer_job QLC queries (logging_connector one many) u j log)
     = log @ [defer_job_query_kwargs queries u j]
   \<and> snd (defer_job_async QLC queries (logging_connector one many) u j log)
     = log @ [defer_job_query_kwargs queries u j]
   \<and> (execute_query_one conn (defer_job_query_kwargs queries u j) db
        = execute_query_one_async conn (defer_job_query_kwargs queries u j) db
      \<longrightarrow> defer_job QLC queries conn u j db = defer_job_async QLC queries conn u j db)"
  by (simp add: defer_job_def defer_job_async_def
      defer_job_logged [unfolded defer_job_def] defer_job_async_logged [unfolded defer_job_async_def])

theorem defer_job_sync_async_identical_witness:
  "defer_job ''procrastinate_jobs_queueing_lock_idx'' id
     (logging_connector (Inr [(''id'', PInt 42)]) (Inr [])) 255
     \<lparr>task_name = ''send_mail'', queue = ''default'', lock = None,
       queueing_lock = None, task_kwargs = [], scheduled_at = None\<rparr> []
   = defer_job_async ''procrastinate_jobs_queueing_lock_idx'' id
     (logging_connector (Inr [(''id'', PInt 42)]) (Inr [])) 255
     \<lparr>task_name = ''send_mail'', queue = ''default'', lock = None,
       queueing_lock = None, task_kwargs = [], scheduled_at = None\<rparr> []
   \<and> fst (defer_job ''procrastinate_jobs_queueing_lock_idx'' id
     (logging_connector (Inr [(''id'', PInt 42)]) (Inr [])) 255
     \<lparr>task_name = ''send_mail'', queue = ''default'', lock = None,
       queueing_lock = None, task_kwargs = [], scheduled_at = None\<rparr> []) = Inr (PInt 42)"
proof -
  let ?j = "\<lparr>task_name = ''send_mail'', queue = ''default'', lock = None,
       queueing_lock = None, task_kwargs = [], scheduled_at = None\<rparr>"
  let ?c = "logging_connector (Inr [(''id'', PInt 42)]) (Inr [])"
  have a: "execute_query_one ?c (defer_job_query_kwargs id 255 ?j) []
            = execute_query_one_async ?c (defer_job_query_kwargs id 255 ?j) []"
    by (simp add: logging_connector_def)
  have "defer_job ''procrastinate_jobs_queueing_lock_idx'' id ?c 255 ?j []
        = defer_job_async ''procrastinate_jobs_queueing_lock_idx'' id ?c 255 ?j []"
    using defer_job_sync_async_identical
      [where conn = ?c and queries = id and u = 255 and j = ?j and db = "[]"] a
    by blast
  moreover have "fst (defer_job ''procrastinate_jobs_queueing_lock_idx'' id ?c 255 ?j [])
        = Inr (PInt 42)"
    by (simp add: defer_job_def logging_connector_def getitem_def)
  ultimately show ?thesis by simp
qed

text \<open>
  Claim C1, as amended. \<^verbatim>\<open>defer_periodic_job\<close> returns the \<^verbatim>\<open>id\<close> of the row the store
  answers with: \<^verbatim>\<open>None\<close> when that row carries a null id, which is how the store says
  that the job for this timestamp exists already, and the new id otherwise. An
  exception of the store is not turned into \<^verbatim>\<open>None\<close>: a \<^verbatim>\<open>UniqueViolation\<close> on the
  queueing-lock constraint is raised as \<^verbatim>\<open>AlreadyEnqueued\<close>, and one on any other
  constraint, like every other exception, is raised as it came.
\<close>

theorem defer_periodic_job_outcomes:
  assumes "execute_query_one_async conn
             [(''query'', PStr (queries ''defer_periodic_job'')),
              (''task_name'', PStr (name t)),
              (''queue'', PStr (task.queue t)),
              (''lock'', opt_str (task.lock t)),
              (''queueing_lock'', opt_str (task.queueing_lock t)),
              (''defer_timestamp'', PInt defer_timestamp)] db = (reply, db')"
  shows "(\<forall>r v. reply = Inr r \<and> map_of r ''id'' = Some v
            \<longrightarrow> defer_periodic_job QLC queries conn t defer_timestamp db = (Inr v, db'))
       \<and> (\<forall>m c. reply = Inl (UniqueViolation m c) \<and> c \<noteq> Some QLC
            \<longrightarrow> defer_periodic_job QLC queries conn t defer_timestamp db
                = (Inl (UniqueViolation m c), db'))
       \<and> (\<forall>m. reply = Inl (UniqueViolation m (Some QLC))
            \<longrightarrow> defer_periodic_job QLC queries conn t defer_timestamp db
                = (Inl (AlreadyEnqueued
                          (''Job cannot be enqueued: there is already a job in the queue with the queueing lock ''
                           @ format_opt_str (task.queueing_lock t))
                          (UniqueViolation m (Some QLC))), db'))
       \<and> (\<forall>exc. reply = Inl exc \<and> \<not> is_UniqueViolation exc
            \<longrightarrow> defer_periodic_job QLC queries conn t defer_timestamp db = (Inl exc, db'))"
  using assms
  by (auto simp: defer_periodic_job_def raise_already_enqueued_def getitem_def
      split: error.splits)

theorem defer_periodic_job_outcomes_witness:
  "defer_periodic_job ''procrastinate_jobs_queueing_lock_idx'' id
     (logging_connector (Inr [(''id'', PNone)]) (Inr []))
     \<lparr>name = ''nightly_report'', queue = ''default'', lock = None, queueing_lock = None\<rparr>
     1604534400 []
   = (Inr PNone,
      [[(''query'', PStr ''defer_periodic_job''), (''task_name'', PStr ''nightly_report''),
        (''queue'', PStr ''default''), (''lock'', PNone), (''queueing_lock'', PNone),
        (''defer_timestamp'', PInt 1604534400)]])
   \<and> fst (defer_periodic_job ''procrastinate_jobs_queueing_lock_idx'' id
     (logging_connector (Inr [(''id'', PInt 12)]) (Inr []))
     \<lparr>name = ''nightly_report'', queue = ''default'', lock = None, queueing_lock = None\<rparr>
     1604534400 [])
   = Inr (PInt 12)
   \<and> fst (defer_periodic_job ''procrastinate_jobs_queueing_lock_idx'' id
     (logging_connector
        (Inl (UniqueViolation ''duplicate key'' (Some ''procrastinate_jobs_queueing_lock_idx'')))
        (Inr []))
     \<lparr>name = ''nightly_report'', queue = ''default'', lock = None,
       queueing_lock = Some ''report''\<rparr>
     1604534400 [])
   = Inl (AlreadyEnqueued
            ''Job cannot be enqueued: there is already a job in the queue with the queueing lock report''
            (UniqueViolation ''duplicate key'' (Some ''procrastinate_jobs_queueing_lock_idx'')))"
proof -
  let ?q = "''procrastinate_jobs_queueing_lock_idx''"
  let ?t = "\<lparr>name = ''nightly_report'', queue = ''default'', lock = None, queueing_lock = None\<rparr>"
  let ?t' = "\<lparr>name = ''nightly_report'', queue = ''default'', lock = None,
              queueing_lock = Some ''report''\<rparr>"
  let ?c0 = "logging_connector (Inr [(''id'', PNone)]) (Inr [])"
  let ?c1 = "logging_connector (Inr [(''id'', PInt 12)]) (Inr [])"
  let ?c2 = "logging_connector (Inl (UniqueViolation ''duplicate key'' (Some ?q))) (Inr [])"
  let ?kw = "[(''query'', PStr (id ''defer_periodic_job'')),
              (''task_name'', PStr (name ?t)),
              (''queue'', PStr (task.queue ?t)),
              (''lock'', opt_str (task.lock ?t)),
              (''queueing_lock'', opt_str (task.queueing_lock ?t)),
              (''defer_timestamp'', PInt 1604534400)]"
  let ?kw' = "[(''query'', PStr (id ''defer_periodic_job'')),
              (''task_name'', PStr (name ?t')),
              (''queue'', PStr (task.queue ?t')),
              (''lock'', opt_str (task.lock ?t')),
              (''queueing_lock'', opt_str (task.queueing_lock ?t')),
              (''defer_timestamp'', PInt 1604534400)]"
  have a: "execute_query_one_async ?c0 ?kw [] = (Inr [(''id'', PNone)], [?kw])"
    by (simp add: logging_connector_def)
  have b: "execute_query_one_async ?c1 ?kw [] = (Inr [(''id'', PInt 12)], [?kw])"
    by (simp add: logging_connector_def)
  have c: "execute_query_one_async ?c2 ?kw' []
           = (Inl (UniqueViolation ''duplicate key'' (Some ?q)), [?kw'])"
    by (simp add: logging_connector_def)
  have "defer_periodic_job ?q id ?c0 ?t 1604534400 [] = (Inr PNone, [?kw])"
    using defer_periodic_job_outcomes
      [where queries = id and t = ?t and conn = ?c0 and defer_timestamp = 1604534400
         and db = "[]" and QLC = ?q, OF a]
    by simp
  moreover have "defer_periodic_job ?q id ?c1 ?t 1604534400 [] = (Inr (PInt 12), [?kw])"
    using defer_periodic_job_outcomes
      [where queries = id and t = ?t and conn = ?c1 and defer_timestamp = 1604534400
         and db = "[]" and QLC = ?q, OF b]
    by simp
  moreover have "defer_periodic_job ?q id ?c2 ?t' 1604534400 []
      = (Inl (AlreadyEnqueued
            (''Job cannot be enqueued: there is already a job in the queue with the queueing lock ''
             @ format_opt_str (task.queueing_lock ?t'))
            (UniqueViolation ''duplicate key'' (Some ?q))), [?kw'])"
    using defer_periodic_job_outcomes
      [where queries = id and t = ?t' and conn = ?c2 and defer_timestamp = 1604534400
         and db = "[]" and QLC = ?q, OF c]
    by simp
  ultimately show ?thesis by (simp add: opt_str_def format_opt_str_def)
qed

text \<open>
  Claim C1 as it was stated fails where the store reports the duplicate by raising: a
  \<^verbatim>\<open>UniqueViolation\<close> on the constraint of the periodic defers reaches the caller as that
  exception, not as \<^verbatim>\<open>None\<close>.
\<close>

theorem defer_periodic_job_unique_violation_counterexample:
  "defer_periodic_job ''procrastinate_jobs_queueing_lock_idx'' id
     (logging_connector
        (Inl (UniqueViolation ''duplicate key'' (Some ''procrastinate_periodic_defers_unique'')))
        (Inr []))
     \<lparr>name = ''nightly_report'', queue = ''default'', lock = None, queueing_lock = None\<rparr>
     1604534400 []
   = (Inl (UniqueViolation ''duplicate key'' (Some ''procrastinate_periodic_defers_unique'')),
      [[(''query'', PStr ''defer_periodic_job''), (''task_name'', PStr ''nightly_report''),
        (''queue'', PStr ''default''), (''lock'', PNone), (''queueing_lock'', PNone),
        (''defer_timestamp'', PInt 1604534400)]])"
  by (simp add: defer_periodic_job_def logging_connector_def raise_already_enqueued_def
      opt_str_def)

subsection \<open>Fetching a job\<close>

text \<open>
  Claim C8. When the store answers \<^verbatim>\<open>fetch_job\<close> with a row whose \<^verbatim>\<open>id\<close> is null, no job
  being eligible, \<^verbatim>\<open>fetch_job\<close> returns \<^verbatim>\<open>None\<close> and raises nothing; when the row carries
  an id, it returns the job record that \<^verbatim>\<open>Job.from_row\<close> builds from that row, to which
  the whole row is handed.
\<close>

theorem fetch_job_none_or_job:
  assumes "execute_query_one_async conn
             [(''query'', PStr (queries ''fetch_job'')), (''queues'', opt_queues queues)] db
           = (Inr r, db')"
  shows "(map_of r ''id'' = Some PNone
            \<longrightarrow> fetch_job queries from_row conn queues db = (Inr None, db'))
       \<and> (\<forall>v j. map_of r ''id'' = Some v \<and> v \<noteq> PNone \<and> from_row r = Inr j
            \<longrightarrow> fetch_job queries from_row conn queues db = (Inr (Some j), db'))"
  using assms by (simp add: fetch_job_def getitem_def)

theorem fetch_job_none_or_job_witness:
  "fetch_job id Inr
     (logging_connector
        (Inr [(''id'', PNone), (''queue_name'', PNone), (''task_name'', PNone)]) (Inr []))
     (Some [''default'']) []
   = (Inr None, [[(''query'', PStr ''fetch_job''), (''queues'', PList [PStr ''default''])]])
   \<and> fetch_job id Inr
     (logging_connector
        (Inr [(''id'', PInt 7), (''queue_name'', PStr ''default''),
              (''task_name'', PStr ''send_mail'')]) (Inr []))
     None []
   = (Inr (Some [(''id'', PInt 7), (''queue_name'', PStr ''default''),
                 (''task_name'', PStr ''send_mail'')]),
      [[(''query'', PStr ''fetch_job''), (''queues'', PNone)]])"
proof -
  let ?r0 = "[(''id'', PNone), (''queue_name'', PNone), (''task_name'', PNone)]"
  let ?r1 = "[(''id'', PInt 7), (''queue_name'', PStr ''default''),
              (''task_name'', PStr ''send_mail'')]"
  let ?c0 = "logging_connector (Inr ?r0) (Inr [])"
  let ?c1 = "logging_connector (Inr ?r1) (Inr [])"
  let ?k0 = "[(''query'', PStr (id ''fetch_job'')), (''queues'', opt_queues (Some [''default'']))]"
  let ?k1 = "[(''query'', PStr (id ''fetch_job'')), (''queues'', opt_queues None)]"
  have a: "execute_query_one_async ?c0 ?k0 [] = (Inr ?r0, [?k0])"
    by (simp add: logging_connector_def)
  have b: "execute_query_one_async ?c1 ?k1 [] = (Inr ?r1, [?k1])"
    by (simp add: logging_connector_def)
  have "fetch_job id Inr ?c0 (Some [''default'']) [] = (Inr None, [?k0])"
    using fetch_job_none_or_job
      [where queries = id and conn = ?c0 and queues = "Some [''default'']" and db = "[]"
         and from_row = Inr, OF a]
    by simp
  moreover have "fetch_job id Inr ?c1 None [] = (Inr (Some ?r1), [?k1])"
    using fetch_job_none_or_job
      [where queries = id and conn = ?c1 and queues = None and db = "[]"
         and from_row = Inr, OF b]
    by simp
  ultimately show ?thesis by (simp add: opt_queues_def)
qed

subsection \<open>Deleting old jobs\<close>

text \<open>
  Claim C6. \<^verbatim>\<open>delete_old_jobs\<close> is one call to the store's delete operation, and the
  statuses of that call are exactly \<^verbatim>\<open>succeeded\<close> when \<^verbatim>\<open>include_error\<close> is false, which
  is the default, or unset, and exactly \<^verbatim>\<open>succeeded\<close> and \<^verbatim>\<open>failed\<close> when it is true;
  \<^verbatim>\<open>todo\<close> and \<^verbatim>\<open>doing\<close> are never among them.
\<close>

theorem delete_old_jobs_statuses_passed:
  "\<exists>statuses.
      delete_old_jobs queries conn nb_hours queue_filter include_error db
        = execute_query_async conn
            [(''query'', PStr (queries ''delete_old_jobs'')),
             (''nb_hours'', PInt nb_hours),
             (''queue'', opt_str queue_filter),
             (''statuses'', PTuple (map PStr statuses))] db
    \<and> snd (delete_old_jobs queries (logging_connector one many) nb_hours queue_filter
              include_error log)
        = log @ [[(''query'', PStr (queries ''delete_old_jobs'')),
                  (''nb_hours'', PInt nb_hours),
                  (''queue'', opt_str queue_filter),
                  (''statuses'', PTuple (map PStr statuses))]]
    \<and> set statuses = (if include_error = Some True
                       then {Status_value SUCCEEDED, Status_value FAILED}
                       else {Status_value SUCCEEDED})
    \<and> Status_value TODO \<notin> set statuses \<and> Status_value DOING \<notin> set statuses"
proof (intro exI [of _ "delete_old_jobs_statuses include_error"] conjI)
  show "set (delete_old_jobs_statuses include_error)
        = (if include_error = Some True
           then {Status_value SUCCEEDED, Status_value FAILED}
           else {Status_value SUCCEEDED})"
    by (cases include_error) (auto simp: delete_old_jobs_statuses_def truthy_def)
qed (simp_all add: delete_old_jobs_def logging_connector_def delete_old_jobs_statuses_def)

theorem delete_old_jobs_statuses_passed_witness:
  "snd (delete_old_jobs id (logging_connector (Inr []) (Inr [])) 24 None (Some False) [])
   = [[(''query'', PStr ''delete_old_jobs''), (''nb_hours'', PInt 24), (''queue'', PNone),
       (''statuses'', PTuple [PStr ''succeeded''])]]
   \<and> snd (delete_old_jobs id (logging_connector (Inr []) (Inr [])) 24 (Some ''default'')
             (Some True) [])
   = [[(''query'', PStr ''delete_old_jobs''), (''nb_hours'', PInt 24),
       (''queue'', PStr ''default''),
       (''statuses'', PTuple [PStr ''succeeded'', PStr ''failed''])]]"
  using delete_old_jobs_statuses_passed
    [where queries = id and include_error = "Some False" and log = "[]"]
  by (simp add: delete_old_jobs_def logging_connector_def delete_old_jobs_statuses_def
      truthy_def opt_str_def)

subsection \<open>Queue and task statistics\<close>

lemma comprehension_Inr:
  "comprehension f rs = Inr outs
   \<Longrightarrow> length outs = length rs \<and> (\<forall>i < length rs. f (rs ! i) = Inr (outs ! i))"
proof (induction rs arbitrary: outs)
  case Nil
  then show ?case by simp
next
  case (Cons r rs)
  from Cons.prems obtain out outs' where
    r: "f r = Inr out" and rs: "comprehension f rs = Inr outs'" and outs: "outs = out # outs'"
    by (auto split: sum.splits)
  from Cons.IH [OF rs] r outs show ?case
    by (auto simp: nth_Cons split: nat.splits)
qed

lemma comprehension_total:
  "(\<forall>r \<in> set rs. \<exists>out. f r = Inr out) \<Longrightarrow> \<exists>outs. comprehension f rs = Inr outs"
  by (induction rs) auto

lemma dict_get_Inr:
  "dict_get d key dflt = Inr v
   \<Longrightarrow> \<exists>st. d = PDict st \<and> v = (case map_of st key of None \<Rightarrow> dflt | Some w \<Rightarrow> w)"
  by (cases d) simp_all

lemma stats_entry_Inr:
  "stats_entry r key = Inr v
   \<Longrightarrow> \<exists>st. map_of r ''stats'' = Some (PDict st)
          \<and> v = (case map_of st key of None \<Rightarrow> PInt 0 | Some w \<Rightarrow> w)"
  by (auto simp: stats_entry_def getitem_def split: option.splits dest!: dict_get_Inr)

lemma stats_projection_Inr:
  assumes "stats_projection r = Inr out"
  shows "\<exists>st. map_of r ''stats'' = Some (PDict st)
           \<and> (\<forall>key \<in> set [''todo'', ''doing'', ''succeeded'', ''failed''].
                 map_of out key = Some (case map_of st key of None \<Rightarrow> PInt 0 | Some v \<Rightarrow> v))"
proof -
  from assms obtain n c t d s f where
    t: "stats_entry r ''todo'' = Inr t" and d: "stats_entry r ''doing'' = Inr d"
    and s: "stats_entry r ''succeeded'' = Inr s" and f: "stats_entry r ''failed'' = Inr f"
    and out: "out = [(''name'', n), (''jobs_count'', c), (''todo'', t), (''doing'', d),
                      (''succeeded'', s), (''failed'', f)]"
    by (auto simp: stats_projection_def split: sum.splits)
  from stats_entry_Inr [OF t] stats_entry_Inr [OF d] stats_entry_Inr [OF s] stats_entry_Inr [OF f]
  show ?thesis unfolding out by auto
qed

lemma stats_projection_total:
  assumes "map_of r ''name'' = Some n" "map_of r ''jobs_count'' = Some c"
    "map_of r ''stats'' = Some (PDict st)"
  shows "\<exists>out. stats_projection r = Inr out"
  using assms by (simp add: stats_projection_def stats_entry_def getitem_def)

text \<open>
  Claim C7. Whenever \<^verbatim>\<open>list_queues_async\<close> or \<^verbatim>\<open>list_tasks_async\<close> returns, it returns one
  dictionary per row of the store's answer, in order, and each dictionary has the four
  keys \<^verbatim>\<open>todo\<close>, \<^verbatim>\<open>doing\<close>, \<^verbatim>\<open>succeeded\<close> and \<^verbatim>\<open>failed\<close>: the count the row's \<^verbatim>\<open>stats\<close>
  has for the status, and 0 for a status that \<^verbatim>\<open>stats\<close> lacks. It does return when every
  row has a \<^verbatim>\<open>name\<close>, a \<^verbatim>\<open>jobs_count\<close> and a dictionary as its \<^verbatim>\<open>stats\<close>.
\<close>

theorem stats_zero_fill:
  assumes "(execute_query_all_async conn
              [(''query'', PStr (queries ''list_queues'')),
               (''queue_name'', opt_str queue_filter),
               (''task_name'', opt_str task_filter),
               (''status'', opt_str status),
               (''lock'', opt_str lock_filter)] db = (Inr rows, db')
            \<and> res = list_queues_async queries conn queue_filter task_filter status lock_filter db)
         \<or> (execute_query_all_async conn
              [(''query'', PStr (queries ''list_tasks'')),
               (''queue_name'', opt_str queue_filter),
               (''name'', opt_str task_filter),
               (''status'', opt_str status),
               (''lock'', opt_str lock_filter)] db = (Inr rows, db')
            \<and> res = list_tasks_async queries conn queue_filter task_filter status lock_filter db)"
  shows "(\<forall>outs. fst res = Inr outs \<longrightarrow>
            length outs = length rows
            \<and> (\<forall>i < length rows. \<exists>st. map_of (rows ! i) ''stats'' = Some (PDict st)
                 \<and> (\<forall>key \<in> set [''todo'', ''doing'', ''succeeded'', ''failed''].
                       map_of (outs ! i) key
                       = Some (case map_of st key of None \<Rightarrow> PInt 0 | Some v \<Rightarrow> v))))
       \<and> ((\<forall>r \<in> set rows. \<exists>n c st. map_of r ''name'' = Some n \<and> map_of r ''jobs_count'' = Some c
                              \<and> map_of r ''stats'' = Some (PDict st))
            \<longrightarrow> (\<exists>outs. res = (Inr outs, db')))"
proof -
  from assms have res: "res = (comprehension stats_projection rows, db')"
    by (auto simp: list_queues_async_def list_tasks_async_def)
  have "length outs = length rows
        \<and> (\<forall>i < length rows. \<exists>st. map_of (rows ! i) ''stats'' = Some (PDict st)
             \<and> (\<forall>key \<in> set [''todo'', ''doing'', ''succeeded'', ''failed''].
                   map_of (outs ! i) key
                   = Some (case map_of st key of None \<Rightarrow> PInt 0 | Some v \<Rightarrow> v)))"
    if "fst res = Inr outs" for outs
  proof -
    from that res have c: "comprehension stats_projection rows = Inr outs" by simp
    from comprehension_Inr [OF c] show ?thesis
      using stats_projection_Inr by blast
  qed
  moreover have "\<exists>outs. res = (Inr outs, db')"
    if "\<forall>r \<in> set rows. \<exists>n c st. map_of r ''name'' = Some n \<and> map_of r ''jobs_count'' = Some c
          \<and> map_of r ''stats'' = Some (PDict st)"
  proof -
    from that have "\<forall>r \<in> set rows. \<exists>out. stats_projection r = Inr out"
      using stats_projection_total by blast
    from comprehension_total [OF this] res show ?thesis by auto
  qed
  ultimately show ?thesis by blast
qed

theorem stats_zero_fill_witness:
  "list_queues_async id
     (logging_connector (Inr [])
        (Inr [[(''name'', PStr ''default''), (''jobs_count'', PInt 3),
               (''stats'', PDict [(''todo'', PInt 3)])]]))
     None None None None []
   = (Inr [[(''name'', PStr ''default''), (''jobs_count'', PInt 3), (''todo'', PInt 3),
            (''doing'', PInt 0), (''succeeded'', PInt 0), (''failed'', PInt 0)]],
      [[(''query'', PStr ''list_queues''), (''queue_name'', PNone), (''task_name'', PNone),
        (''status'', PNone), (''lock'', PNone)]])"
proof -
  let ?rows = "[[(''name'', PStr ''default''), (''jobs_count'', PInt 3),
               (''stats'', PDict [(''todo'', PInt 3)])]]"
  let ?c = "logging_connector (Inr []) (Inr ?rows)"
  let ?kw = "[(''query'', PStr (id ''list_queues'')), (''queue_name'', opt_str None),
       (''task_name'', opt_str None), (''status'', opt_str None), (''lock'', opt_str None)]"
  have a: "execute_query_all_async ?c ?kw [] = (Inr ?rows, [?kw])"
    by (simp add: logging_connector_def)
  have "\<exists>outs. list_queues_async id ?c None None None None [] = (Inr outs, [?kw])"
    using stats_zero_fill
      [where queries = id and conn = ?c and rows = ?rows and db = "[]" and db' = "[?kw]"
         and queue_filter = None and task_filter = None and status = None and lock_filter = None
         and res = "list_queues_async id ?c None None None None []", OF disjI1, OF conjI, OF a refl]
    by simp
  then show ?thesis
    by (simp add: list_queues_async_def logging_connector_def stats_projection_def
        stats_entry_def getitem_def opt_str_def)
qed


end
